theory Spec2Isabelle
  imports Complex_Main
begin

section \<open>Change detection engine of the backend (detect\_change.py, app.py)\<close>

text \<open>
  The development embeds \<^verbatim>\<open>backend/detect_change.py\<close> and the geocoding helper of
  \<^verbatim>\<open>backend/app.py\<close>. Python floats (and NumPy float32/float64 values) are idealised as
  real numbers: every arithmetic expression keeps the shape it has in the source, rounding
  of the machine format is left out. Calls into OpenCV, scikit-learn and base64 are
  parameters of the model (the record \<open>cv\<close> below); the Python that sits between those calls
  is translated line by line.
\<close>

subsection \<open>Exceptions\<close>

datatype exn =
    DetectionError   \<comment> \<open>\<^verbatim>\<open>class DetectionError(Exception)\<close>\<close>
  | RetryError       \<comment> \<open>raised by the retry decorator once its stop condition is met\<close>
  | IndexError
  | ValueError
  | CvError          \<comment> \<open>\<^verbatim>\<open>cv2.error\<close> and argument errors of the OpenCV bindings\<close>

subsection \<open>NumPy arrays\<close>

text \<open>An array is its shape and its elements in row-major order, as NumPy stores it.\<close>

record 'a ndarray =
  nd_shape :: "nat list"
  nd_data :: "'a list"

definition np_map :: "('a \<Rightarrow> 'b) \<Rightarrow> 'a ndarray \<Rightarrow> 'b ndarray" where
  "np_map f a = \<lparr>nd_shape = nd_shape a, nd_data = map f (nd_data a)\<rparr>"

text \<open>
  Broadcasting. The shorter shape is padded with ones on the left; two axes are compatible
  when their lengths are equal or one of them is 1, and the result takes the other length;
  incompatible shapes raise \<^verbatim>\<open>ValueError\<close>.
\<close>

fun broadcast_dims :: "nat list \<Rightarrow> nat list \<Rightarrow> nat list option" where
  "broadcast_dims [] [] = Some []"
| "broadcast_dims (x # xs) (y # ys) =
     (case broadcast_dims xs ys of
        None \<Rightarrow> None
      | Some zs \<Rightarrow>
          if x = y then Some (x # zs)
          else if x = 1 then Some (y # zs)
          else if y = 1 then Some (x # zs)
          else None)"
| "broadcast_dims _ _ = None"

definition pad_shape :: "nat \<Rightarrow> nat list \<Rightarrow> nat list" where
  "pad_shape n shp = replicate (n - length shp) 1 @ shp"

definition broadcast_shapes :: "nat list \<Rightarrow> nat list \<Rightarrow> nat list option" where
  "broadcast_shapes s t =
     (let n = max (length s) (length t) in broadcast_dims (pad_shape n s) (pad_shape n t))"

text \<open>
  The multi-index of the \<open>k\<close>-th element of an array of a given shape, and the position
  in an operand of the element a multi-index of the result reads: an axis of length 1 is
  read at 0.
\<close>

fun unravel :: "nat list \<Rightarrow> nat \<Rightarrow> nat list" where
  "unravel [] k = []"
| "unravel (d # ds) k = (k div prod_list ds) # unravel ds (k mod prod_list ds)"

fun ravel :: "nat list \<Rightarrow> nat list \<Rightarrow> nat" where
  "ravel (d # ds) (i # is) = (if d = 1 then 0 else i) * prod_list ds + ravel ds is"
| "ravel _ _ = 0"

definition broadcast_to :: "nat list \<Rightarrow> 'a ndarray \<Rightarrow> 'a list" where
  "broadcast_to out a =
     map (\<lambda>k. nd_data a ! ravel (pad_shape (length out) (nd_shape a)) (unravel out k))
       [0..<prod_list out]"

text \<open>
  A binary operator on two arrays: element by element when the shapes are equal, over the
  broadcast operands when they are compatible.
\<close>

definition np_zip :: "('a \<Rightarrow> 'b \<Rightarrow> 'c) \<Rightarrow> 'a ndarray \<Rightarrow> 'b ndarray \<Rightarrow> exn + 'c ndarray" where
  "np_zip f a b =
     (if nd_shape a = nd_shape b
      then Inr \<lparr>nd_shape = nd_shape a, nd_data = map2 f (nd_data a) (nd_data b)\<rparr>
      else case broadcast_shapes (nd_shape a) (nd_shape b) of
             None \<Rightarrow> Inl ValueError
           | Some out \<Rightarrow>
               Inr \<lparr>nd_shape = out, nd_data = map2 f (broadcast_to out a) (broadcast_to out b)\<rparr>)"

text \<open>The invariant of every NumPy array: as many elements as the shape says.\<close>

definition wf_array :: "'a ndarray \<Rightarrow> bool" where
  "wf_array a = (length (nd_data a) = prod_list (nd_shape a))"

text \<open>\<^verbatim>\<open>np.mean\<close>; on an empty array NumPy answers nan, the model \<open>0\<close>.\<close>

definition np_mean :: "real list \<Rightarrow> real" where
  "np_mean xs = sum_list xs / real (length xs)"

text \<open>
  \<^verbatim>\<open>img[:, :, k]\<close>: the \<open>k\<close>-th band of a height x width x band raster. An array with fewer
  than three axes has too many indices, and a band index at or beyond the band count is
  out of bounds; both raise \<^verbatim>\<open>IndexError\<close>. (OpenCV rasters have two or three axes.)
\<close>

definition band :: "'a ndarray \<Rightarrow> nat \<Rightarrow> exn + 'a ndarray" where
  "band img k =
     (case nd_shape img of
        [h, w, c] \<Rightarrow>
          if k < c
          then Inr \<lparr>nd_shape = [h, w],
                    nd_data = map (\<lambda>p. nd_data img ! (p * c + k)) [0..<h * w]\<rparr>
          else Inl IndexError
      | _ \<Rightarrow> Inl IndexError)"

subsection \<open>Spectral indices\<close>

definition eps :: real where
  "eps = 1 / 1000000"

text \<open>\<^verbatim>\<open>return (nir - red) / (nir + red + 1e-6)\<close>\<close>

definition compute_ndvi :: "real ndarray \<Rightarrow> real ndarray \<Rightarrow> exn + real ndarray" where
  "compute_ndvi nir red =
     (case np_zip (\<lambda>a b. a - b) nir red of
        Inl e \<Rightarrow> Inl e
      | Inr num \<Rightarrow>
          (case np_zip (\<lambda>a b. a + b) nir red of
             Inl e \<Rightarrow> Inl e
           | Inr s \<Rightarrow> np_zip (\<lambda>a b. a / b) num (np_map (\<lambda>v. v + eps) s)))"

text \<open>
  \<^verbatim>\<open>nir = nir / 10000.0; swir = swir / 10000.0; return (swir - nir) / (swir + nir + 1e-6)\<close>
\<close>

definition compute_ndbi :: "real ndarray \<Rightarrow> real ndarray \<Rightarrow> exn + real ndarray" where
  "compute_ndbi nir swir =
     (let nir' = np_map (\<lambda>v. v / 10000) nir;
          swir' = np_map (\<lambda>v. v / 10000) swir
      in case np_zip (\<lambda>a b. a - b) swir' nir' of
           Inl e \<Rightarrow> Inl e
         | Inr num \<Rightarrow>
             (case np_zip (\<lambda>a b. a + b) swir' nir' of
                Inl e \<Rightarrow> Inl e
              | Inr s \<Rightarrow> np_zip (\<lambda>a b. a / b) num (np_map (\<lambda>v. v + eps) s)))"

subsection \<open>Geocoding helper of app.py\<close>

text \<open>
  \<^verbatim>\<open>INDORE_BBOX\<close> is the tuple written in app.py unless \<^verbatim>\<open>configa_h\<close> imports, in which
  case \<^verbatim>\<open>INDORE_BBOX = CFG_BBOX or INDORE_BBOX\<close> takes the list of the configuration module.
\<close>

definition INDORE_BBOX_default :: "real list" where
  "INDORE_BBOX_default = [7574 / 100, 2258 / 100, 7602 / 100, 2284 / 100]"

definition INDORE_BBOX_configa_h :: "real list" where
  "INDORE_BBOX_configa_h = [758895 / 10000, 227525 / 10000, 759150 / 10000, 227700 / 10000]"

definition INDORE_BBOX :: "real list option \<Rightarrow> real list" where
  "INDORE_BBOX cfg =
     (case cfg of
        None \<Rightarrow> INDORE_BBOX_default
      | Some b \<Rightarrow> if b = [] then INDORE_BBOX_default else b)"

text \<open>
  \<^verbatim>\<open>minx, miny, maxx, maxy = INDORE_BBOX\<close> raises \<^verbatim>\<open>ValueError\<close> unless the sequence has
  exactly four items; the result is the pair \<^verbatim>\<open>(lat, lng)\<close>.
\<close>

definition px_to_ll :: "real list \<Rightarrow> real \<Rightarrow> real \<Rightarrow> exn + real \<times> real" where
  "px_to_ll bbox cx cy =
     (case bbox of
        [minx, miny, maxx, maxy] \<Rightarrow>
          (let lat = miny + (cy / 512) * (maxy - miny);
               lng = minx + (cx / 512) * (maxx - minx)
           in Inr (lat, lng))
      | _ \<Rightarrow> Inl ValueError)"

subsection \<open>The libraries the engine calls\<close>

text \<open>
  The engine hands its rasters to OpenCV and scikit-learn and reads their answers. Each
  such call is a field of the record \<open>cv\<close>; a theorem about the engine holds for every
  value of the record, and a library fact a theorem needs is one of its hypotheses.
  File-system calls (\<^verbatim>\<open>os.makedirs\<close>, \<^verbatim>\<open>cv2.imwrite\<close>) are taken to succeed.
\<close>

type_synonym image = "nat ndarray"

text \<open>
  One \<^verbatim>\<open>cv2.DMatch\<close> together with the two keypoint positions the engine reads through
  it (\<^verbatim>\<open>kp1[m.queryIdx].pt\<close>, \<^verbatim>\<open>kp2[m.trainIdx].pt\<close>).
\<close>

record dmatch =
  dm_distance :: real
  dm_query_pt :: "real \<times> real"
  dm_train_pt :: "real \<times> real"

text \<open>
  One contour with what the engine asks OpenCV about it: \<^verbatim>\<open>cv2.contourArea(c)\<close>,
  \<^verbatim>\<open>cv2.boundingRect(c)\<close> as \<open>(x, y, w, h)\<close>, \<^verbatim>\<open>cv2.arcLength(c, True)\<close> and
  \<^verbatim>\<open>cv2.approxPolyDP(c, epsilon, closed=True)\<close> as a function of \<open>epsilon\<close>. A polygon
  is a list of points, a point a list of rows, a row a list of coordinates.
\<close>

record contour =
  contourArea :: real
  boundingRect :: "int \<times> int \<times> int \<times> int"
  arcLength :: real
  approxPolyDP :: "real \<Rightarrow> int list list list"

text \<open>A Python value passed as \<^verbatim>\<open>dsize\<close>: an integer or a tuple of values.\<close>

datatype pyval = PInt nat | PTuple "pyval list"

record cv =
  b64decode :: "string \<Rightarrow> exn + string"
  imdecode :: "string \<Rightarrow> exn + image option"
  resize :: "image \<Rightarrow> nat \<times> nat \<Rightarrow> image"
  orb_match :: "image \<Rightarrow> image \<Rightarrow> exn + dmatch list"
  findHomography :: "(real \<times> real) list \<Rightarrow> (real \<times> real) list \<Rightarrow> real list list option"
  warpPerspective :: "image \<Rightarrow> real list list option \<Rightarrow> pyval \<Rightarrow> exn + image"
  GaussianBlur :: "image \<Rightarrow> image"
  IsolationForest :: "real \<Rightarrow> nat \<Rightarrow> (real \<times> real) list \<Rightarrow> real list \<times> int list"
  morphologyEx_close :: "image \<Rightarrow> image"
  findContours :: "image \<Rightarrow> contour list"

text \<open>
  \<^item> \<open>b64decode\<close>: \<^verbatim>\<open>base64.b64decode\<close>, the bytes or an exception;
  \<^item> \<open>imdecode\<close>: \<^verbatim>\<open>cv2.imdecode(np.frombuffer(bytes, np.uint8), cv2.IMREAD_UNCHANGED)\<close>:
    an exception, \<^verbatim>\<open>None\<close> or a raster;
  \<^item> \<open>orb_match\<close>: ORB keypoints and descriptors of both rasters and the cross-checked
    brute-force matches between them (lines 43 to 47), or the exception one of these calls
    raises;
  \<^item> \<open>IsolationForest contamination random_state features\<close>: the forest fitted on
    \<open>features\<close>, then \<^verbatim>\<open>decision_function(features)\<close> and \<^verbatim>\<open>predict(features)\<close>
    (one score and one prediction, \<open>1\<close> or \<open>-1\<close>, per feature row);
  \<^item> \<open>morphologyEx_close\<close>: \<^verbatim>\<open>cv2.morphologyEx(mask, cv2.MORPH_CLOSE, np.ones((5,5)))\<close>;
  \<^item> \<open>findContours\<close>: the external contours of the mask.
\<close>

subsection \<open>Sequencing\<close>

definition try_then :: "exn + 'a \<Rightarrow> ('a \<Rightarrow> exn + 'b) \<Rightarrow> exn + 'b" where
  "try_then m f = (case m of Inl e \<Rightarrow> Inl e | Inr v \<Rightarrow> f v)"

text \<open>\<^verbatim>\<open>xs[i]\<close> for an index that is not negative.\<close>

definition py_nth :: "'a list \<Rightarrow> nat \<Rightarrow> exn + 'a" where
  "py_nth xs i = (if i < length xs then Inr (xs ! i) else Inl IndexError)"

subsection \<open>decode\_image and its retry decorator\<close>

text \<open>
  The body of \<^verbatim>\<open>decode_image\<close>, one attempt. Whatever is raised inside the
  \<^verbatim>\<open>try\<close> (the \<^verbatim>\<open>DetectionError\<close> for a \<^verbatim>\<open>None\<close> raster included) is caught by
  \<^verbatim>\<open>except Exception\<close> and raised again as \<^verbatim>\<open>DetectionError\<close>. The raster is returned
  as decoded: the body looks at neither its size nor its band count.
\<close>

definition decode_image_body :: "cv \<Rightarrow> string \<Rightarrow> exn + image" where
  "decode_image_body L image_b64 =
     (case b64decode L image_b64 of
        Inl e \<Rightarrow> Inl DetectionError
      | Inr img_data \<Rightarrow>
          (case imdecode L img_data of
             Inl e \<Rightarrow> Inl DetectionError
           | Inr None \<Rightarrow> Inl DetectionError
           | Inr (Some img) \<Rightarrow> Inr img))"

text \<open>
  \<^verbatim>\<open>wait_exponential(multiplier, min, max)\<close> of tenacity: after attempt \<open>n\<close> (counted
  from 1) the wait is \<open>multiplier * 2 ^ (n - 1)\<close> seconds, not below \<open>min\<close> and not above
  \<open>max\<close>.
\<close>

definition wait_exponential :: "nat \<Rightarrow> nat \<Rightarrow> nat \<Rightarrow> nat \<Rightarrow> nat" where
  "wait_exponential multiplier mn mx attempt = max mn (min (multiplier * 2 ^ (attempt - 1)) mx)"

text \<open>
  \<^verbatim>\<open>@retry(stop=stop_after_attempt(3), wait=wait_exponential(multiplier=1, min=2, max=10),
  retry=retry_if_exception_type(DetectionError))\<close>. The decorated body runs; a result is
  returned; an exception that is not a \<^verbatim>\<open>DetectionError\<close> propagates; a
  \<^verbatim>\<open>DetectionError\<close> is retried after the wait, unless this was the last attempt, in
  which case tenacity raises \<^verbatim>\<open>RetryError\<close> (\<^verbatim>\<open>reraise\<close> is not set). The second
  component lists the waits slept, in seconds. \<open>retry_from left n f\<close> runs attempt \<open>n\<close>
  with \<open>left\<close> attempts allowed after it.
\<close>

fun retry_from :: "nat \<Rightarrow> nat \<Rightarrow> (nat \<Rightarrow> exn + 'a) \<Rightarrow> (exn + 'a) \<times> nat list" where
  "retry_from 0 n f =
     (case f n of
        Inr v \<Rightarrow> (Inr v, [])
      | Inl e \<Rightarrow> (if e = DetectionError then Inl RetryError else Inl e, []))"
| "retry_from (Suc left) n f =
     (case f n of
        Inr v \<Rightarrow> (Inr v, [])
      | Inl e \<Rightarrow>
          if e = DetectionError
          then (case retry_from left (Suc n) f of (r, ws) \<Rightarrow> (r, wait_exponential 1 2 10 n # ws))
          else (Inl e, []))"

definition decode_image_log :: "cv \<Rightarrow> string \<Rightarrow> (exn + image) \<times> nat list" where
  "decode_image_log L image_b64 = retry_from (3 - 1) 1 (\<lambda>attempt. decode_image_body L image_b64)"

definition decode_image :: "cv \<Rightarrow> string \<Rightarrow> exn + image" where
  "decode_image L image_b64 = fst (decode_image_log L image_b64)"

subsection \<open>Resizing and alignment\<close>

definition resize_images :: "cv \<Rightarrow> image \<Rightarrow> image \<Rightarrow> image \<times> image" where
  "resize_images L img1 img2 = (resize L img1 (512, 512), resize L img2 (512, 512))"

text \<open>
  \<^verbatim>\<open>align_images\<close>. With fewer than four matches the second raster is returned as it
  is. Otherwise the four best matches give a homography and the raster is warped with
  \<^verbatim>\<open>dsize = (img1.shape[1], img1.shape)\<close>: the second component is the whole shape
  tuple, as the source writes it.
\<close>

definition align_images :: "cv \<Rightarrow> image \<Rightarrow> image \<Rightarrow> exn + image" where
  "align_images L img1 img2 =
     try_then (orb_match L img1 img2) (\<lambda>found.
       let matches = sort_key dm_distance found
       in if length matches < 4 then Inr img2
          else
            let src_pts = map dm_query_pt (take 4 matches);
                dst_pts = map dm_train_pt (take 4 matches);
                M = findHomography L src_pts dst_pts
            in try_then (py_nth (nd_shape img1) 1) (\<lambda>w.
                 warpPerspective L img2 M (PTuple [PInt w, PTuple (map PInt (nd_shape img1))])))"

text \<open>What OpenCV accepts as \<^verbatim>\<open>dsize\<close>: a pair of integers.\<close>

fun is_size :: "pyval \<Rightarrow> bool" where
  "is_size (PTuple [PInt w, PInt h]) = True"
| "is_size _ = False"

subsection \<open>detect\_illegal\_construction\<close>

text \<open>
  The result dictionary: \<^verbatim>\<open>{"detected": False}\<close>, which has no other key, or the
  dictionary of line 142 with \<^verbatim>\<open>"detected": True\<close> and the keys \<^verbatim>\<open>bbox\<close>,
  \<^verbatim>\<open>mask_path\<close>, \<^verbatim>\<open>timestamp\<close>, \<^verbatim>\<open>confidence\<close>, \<^verbatim>\<open>polygons\<close>,
  \<^verbatim>\<open>ndvi_diff_mean\<close> and \<^verbatim>\<open>ndbi_diff_mean\<close>.
\<close>

datatype result =
    NoDetection
  | Detection
      (res_bbox : "int list")
      (res_mask_path : string)
      (res_timestamp : string)
      (res_confidence : real)
      (res_polygons : "int list list list list")
      (res_ndvi_diff_mean : real)
      (res_ndbi_diff_mean : real)

definition detected :: "result \<Rightarrow> bool" where
  "detected r = (case r of NoDetection \<Rightarrow> False | Detection b m t c p v u \<Rightarrow> True)"

text \<open>
  What one call can change: the live entries of the module's \<^verbatim>\<open>mask_cache\<close>
  (\<^verbatim>\<open>TTLCache(maxsize=100, ttl=3600)\<close>; expiry and eviction happen between calls and only
  remove entries), the mask images written, and how often the forest has been fitted
  (a counter the source does not keep; it stands for a call-counting stub on the scorer).
\<close>

record state =
  mask_cache :: "string \<rightharpoonup> result"
  mask_files :: "(string \<times> image) list"
  scorer_fits :: nat

definition cache_key :: "string \<Rightarrow> string \<Rightarrow> string" where
  "cache_key old_b64 new_b64 = take 50 old_b64 @ ''_'' @ take 50 new_b64"

text \<open>
  Lines 71 to 80: both scenes decoded, resized, the new one aligned to the old one, both
  blurred. (\<^verbatim>\<open>decode_image\<close> returns a raster or raises, so the test for \<^verbatim>\<open>None\<close> on
  line 73 never holds.)
\<close>

definition preprocess :: "cv \<Rightarrow> string \<Rightarrow> string \<Rightarrow> exn + image \<times> image" where
  "preprocess L old_b64 new_b64 =
     try_then (decode_image L old_b64) (\<lambda>old_img.
     try_then (decode_image L new_b64) (\<lambda>new_img.
       case resize_images L old_img new_img of
         (old_img, new_img) \<Rightarrow>
           try_then (align_images L old_img new_img) (\<lambda>new_img.
             Inr (GaussianBlur L old_img, GaussianBlur L new_img))))"

text \<open>\<^verbatim>\<open>img[:, :, k].astype(np.float32)\<close>\<close>

definition float_band :: "image \<Rightarrow> nat \<Rightarrow> exn + real ndarray" where
  "float_band img k = try_then (band img k) (\<lambda>b. Inr (np_map real b))"

text \<open>Lines 83 to 98: the bands, the four indices and the two differences.\<close>

definition index_deltas :: "image \<Rightarrow> image \<Rightarrow> exn + real ndarray \<times> real ndarray" where
  "index_deltas old_img new_img =
     try_then (float_band old_img 3) (\<lambda>nir_old.
     try_then (float_band old_img 2) (\<lambda>red_old.
     try_then (float_band old_img 4) (\<lambda>swir_old.
     try_then (float_band new_img 3) (\<lambda>nir_new.
     try_then (float_band new_img 2) (\<lambda>red_new.
     try_then (float_band new_img 4) (\<lambda>swir_new.
     try_then (compute_ndvi nir_old red_old) (\<lambda>ndvi_old.
     try_then (compute_ndvi nir_new red_new) (\<lambda>ndvi_new.
     try_then (compute_ndbi nir_old swir_old) (\<lambda>ndbi_old.
     try_then (compute_ndbi nir_new swir_new) (\<lambda>ndbi_new.
     try_then (np_zip (\<lambda>a b. a - b) ndvi_new ndvi_old) (\<lambda>ndvi_diff.
     try_then (np_zip (\<lambda>a b. a - b) ndbi_new ndbi_old) (\<lambda>ndbi_diff.
       Inr (ndvi_diff, ndbi_diff)))))))))))))"

text \<open>
  \<^verbatim>\<open>np.stack([a.flatten(), b.flatten()], axis=1)\<close>: one row per pixel; arrays of different
  sizes cannot be stacked.
\<close>

definition np_stack2 :: "'a ndarray \<Rightarrow> 'a ndarray \<Rightarrow> exn + ('a \<times> 'a) list" where
  "np_stack2 a b =
     (if length (nd_data a) = length (nd_data b) then Inr (zip (nd_data a) (nd_data b))
      else Inl ValueError)"

text \<open>\<^verbatim>\<open>xs.reshape(shape)\<close>: the same elements under a shape of the same size.\<close>

definition np_reshape :: "'a list \<Rightarrow> nat list \<Rightarrow> exn + 'a ndarray" where
  "np_reshape xs shp =
     (if length xs = prod_list shp then Inr \<lparr>nd_shape = shp, nd_data = xs\<rparr> else Inl ValueError)"

text \<open>
  Lines 118 to 130, the loop over the contours. The accumulator is
  \<open>((x_min, y_min, x_max, y_max), polygons)\<close>. The comprehension
  \<^verbatim>\<open>[[pt[0], pt[3]] for pt in approx]\<close> reads rows 0 and 3 of every point.
\<close>

fun polygon_points :: "int list list list \<Rightarrow> exn + int list list list" where
  "polygon_points [] = Inr []"
| "polygon_points (pt # rest) =
     try_then (py_nth pt 0) (\<lambda>a.
     try_then (py_nth pt 3) (\<lambda>b.
     try_then (polygon_points rest) (\<lambda>ps. Inr ([a, b] # ps))))"

type_synonym box = "int \<times> int \<times> int \<times> int"

fun region_loop ::
  "contour list \<Rightarrow> box \<times> int list list list list \<Rightarrow> exn + box \<times> int list list list list" where
  "region_loop [] acc = Inr acc"
| "region_loop (c # cs) ((x_min, y_min, x_max, y_max), polygons) =
     (if contourArea c < 50 then region_loop cs ((x_min, y_min, x_max, y_max), polygons)
      else
        case boundingRect c of
          (x, y, w, h) \<Rightarrow>
            try_then (polygon_points (approxPolyDP c (0.01 * arcLength c))) (\<lambda>poly.
              region_loop cs
                ((min x x_min, min y y_min, max (x + w) x_max, max (y + h) y_max),
                 polygons @ [poly])))"

text \<open>Line 132: \<^verbatim>\<open>x_min >= x_max or y_min >= y_max\<close>.\<close>

definition degenerate :: "box \<Rightarrow> bool" where
  "degenerate bb = (case bb of (x_min, y_min, x_max, y_max) \<Rightarrow> x_min \<ge> x_max \<or> y_min \<ge> y_max)"

text \<open>
  Lines 106 to 133: the mask of the predictions, closed; its contours; the loop; the test
  for a degenerate box. \<open>None\<close> stands for the two \<^verbatim>\<open>return {"detected": False}\<close>.
\<close>

definition region_stage ::
  "cv \<Rightarrow> nat list \<Rightarrow> int list \<Rightarrow> exn + (image \<times> box \<times> int list list list list) option" where
  "region_stage L shp preds =
     try_then (np_reshape preds shp) (\<lambda>grid.
       let anomaly_mask = morphologyEx_close L (np_map (\<lambda>p. if p = - 1 then 255 else 0) grid);
           contours = findContours L anomaly_mask
       in case contours of
            [] \<Rightarrow> Inr None
          | _ \<Rightarrow>
             try_then (region_loop contours ((512, 512, 0, 0), [])) (\<lambda>(bb, polygons).
               if degenerate bb then Inr None else Inr (Some (anomaly_mask, bb, polygons))))"

text \<open>
  Line 140, \<^verbatim>\<open>np.mean(scores[preds == -1]) if np.any(preds == -1) else 0\<close>, and
  \<^verbatim>\<open>round(confidence, 2)\<close>, which rounds to the nearest hundredth, a tie to the even
  one. (The library returns as many scores as predictions.)
\<close>

definition flagged_scores :: "real list \<Rightarrow> int list \<Rightarrow> real list" where
  "flagged_scores scores preds = map fst (filter (\<lambda>sp. snd sp = - 1) (zip scores preds))"

definition rint :: "real \<Rightarrow> int" where
  "rint x =
     (let f = \<lfloor>x\<rfloor>; d = x - of_int f
      in if d < 1 / 2 then f else if 1 / 2 < d then f + 1 else if even f then f else f + 1)"

definition round2 :: "real \<Rightarrow> real" where
  "round2 x = of_int (rint (x * 100)) / 100"

definition mean_flagged :: "real list \<Rightarrow> int list \<Rightarrow> real" where
  "mean_flagged scores preds =
     (if - 1 \<in> set preds then np_mean (flagged_scores scores preds) else 0)"

text \<open>\<^verbatim>\<open>os.path.join\<close> (POSIX) and \<^verbatim>\<open>.replace("\\", "/")\<close>.\<close>

definition path_join :: "string \<Rightarrow> string \<Rightarrow> string" where
  "path_join a b = (if a = [] then b else if last a = CHR ''/'' then a @ b else a @ ''/'' @ b)"

definition slashes :: "string \<Rightarrow> string" where
  "slashes p = map (\<lambda>c. if c = CHR 0x5C then CHR ''/'' else c) p"

text \<open>
  Lines 70 to 99 of the function: preprocessing, index differences and the feature rows.
\<close>

definition feature_stage ::
  "cv \<Rightarrow> string \<Rightarrow> string \<Rightarrow> exn + real ndarray \<times> real ndarray \<times> (real \<times> real) list" where
  "feature_stage L old_b64 new_b64 =
     try_then (preprocess L old_b64 new_b64) (\<lambda>(old_img, new_img).
     try_then (index_deltas old_img new_img) (\<lambda>(ndvi_diff, ndbi_diff).
     try_then (np_stack2 ndvi_diff ndbi_diff) (\<lambda>features.
       Inr (ndvi_diff, ndbi_diff, features))))"

text \<open>
  The body of \<^verbatim>\<open>detect_illegal_construction(old_b64, new_b64, output_dir)\<close>, run in the
  state \<open>s\<close> while the clock reads \<open>now\<close> (the string \<^verbatim>\<open>strftime\<close> gives). The
  outcome is the returned dictionary or the exception raised, with the state left behind.
  Only the last \<^verbatim>\<open>return\<close> is preceded by the store into the cache.
\<close>

definition detect_illegal_construction ::
  "cv \<Rightarrow> string \<Rightarrow> state \<Rightarrow> string \<Rightarrow> string \<Rightarrow> string \<Rightarrow> (exn + result) \<times> state" where
  "detect_illegal_construction L now s old_b64 new_b64 output_dir =
     (case mask_cache s (cache_key old_b64 new_b64) of
        Some cached \<Rightarrow> (Inr cached, s)
      | None \<Rightarrow>
          (case feature_stage L old_b64 new_b64 of
             Inl e \<Rightarrow> (Inl e, s)
           | Inr (ndvi_diff, ndbi_diff, features) \<Rightarrow>
               (case IsolationForest L (5 / 100) 42 features of
                  (scores, preds) \<Rightarrow>
                    let s1 = s\<lparr>scorer_fits := Suc (scorer_fits s)\<rparr>
                    in case region_stage L (nd_shape ndvi_diff) preds of
                         Inl e \<Rightarrow> (Inl e, s1)
                       | Inr None \<Rightarrow> (Inr NoDetection, s1)
                       | Inr (Some (anomaly_mask, (x_min, y_min, x_max, y_max), polys)) \<Rightarrow>
                           let path = path_join output_dir (''mask_'' @ now @ ''.png'');
                               res = Detection [x_min, y_min, x_max, y_max] (slashes path) now
                                       (round2 (mean_flagged scores preds)) polys
                                       (np_mean (nd_data ndvi_diff)) (np_mean (nd_data ndbi_diff))
                           in (Inr res,
                               s1\<lparr>mask_files := mask_files s1 @ [(path, anomaly_mask)],
                                  mask_cache := (mask_cache s1)(cache_key old_b64 new_b64 \<mapsto> res)\<rparr>))))"

subsection \<open>batch\_detect\<close>

text \<open>
  \<^verbatim>\<open>detect_illegal_construction\<close> is declared \<^verbatim>\<open>async def\<close>. Calling it runs none of
  its body: the call returns a coroutine object, and the body runs when that object is
  awaited. \<^verbatim>\<open>batch_detect\<close> passes the function to \<^verbatim>\<open>asyncio.to_thread\<close>, which calls it
  in a worker thread and gives back what the call returned; \<^verbatim>\<open>asyncio.gather\<close> collects,
  in order, one such value per zipped pair (or the exception a task raised). Nothing
  awaits the coroutine objects.
\<close>

datatype pyobject =
    Coroutine string string string
      \<comment> \<open>the coroutine object of \<^verbatim>\<open>detect_illegal_construction(old, new, output_dir)\<close>, not run\<close>
  | Dict result
  | Exception exn

text \<open>Calling the \<^verbatim>\<open>async def\<close> function: no line of the body runs, nothing is raised.\<close>

definition detect_illegal_construction_call :: "string \<times> string \<times> string \<Rightarrow> exn + pyobject" where
  "detect_illegal_construction_call args =
     (case args of (old, new, output_dir) \<Rightarrow> Inr (Coroutine old new output_dir))"

text \<open>\<^verbatim>\<open>asyncio.to_thread(f, *args)\<close>, awaited: what \<^verbatim>\<open>f(*args)\<close> returns or raises.\<close>

definition to_thread :: "('a \<Rightarrow> exn + pyobject) \<Rightarrow> 'a \<Rightarrow> exn + pyobject" where
  "to_thread f args = f args"

text \<open>
  \<^verbatim>\<open>asyncio.gather(*tasks, return_exceptions=True)\<close>: the results in the order of the
  tasks, an exception standing in the place of the task that raised it.
\<close>

definition gather_return_exceptions :: "(exn + pyobject) list \<Rightarrow> pyobject list" where
  "gather_return_exceptions tasks = map (\<lambda>t. case t of Inl e \<Rightarrow> Exception e | Inr v \<Rightarrow> v) tasks"

definition batch_detect :: "string list \<Rightarrow> string list \<Rightarrow> string \<Rightarrow> pyobject list" where
  "batch_detect old_b64s new_b64s output_dir =
     gather_return_exceptions
       (map (\<lambda>(old, new). to_thread detect_illegal_construction_call (old, new, output_dir))
          (zip old_b64s new_b64s))"

subsection \<open>States the module can be in\<close>

text \<open>
  Line 20 creates the cache empty. From there the state changes by calls of the function
  and by the cache dropping entries (expiry after an hour, eviction beyond 100 entries).
\<close>

definition initial_state :: state where
  "initial_state = \<lparr>mask_cache = Map.empty, mask_files = [], scorer_fits = 0\<rparr>"

inductive reachable :: "cv \<Rightarrow> state \<Rightarrow> bool" for L :: cv where
  start: "reachable L initial_state"
| call: "reachable L s \<Longrightarrow> detect_illegal_construction L now s old new out = (outcome, s') \<Longrightarrow>
         reachable L s'"
| expire: "reachable L s \<Longrightarrow> reachable L (s\<lparr>mask_cache := mask_cache s |` keep\<rparr>)"

subsection \<open>Library facts some properties rest on\<close>

text \<open>
  A bounding rectangle \<open>(x, y, w, h)\<close> of a contour of a 512 x 512 mask lies in the
  tile.
\<close>

definition in_tile :: "box \<Rightarrow> bool" where
  "in_tile r = (case r of (x, y, w, h) \<Rightarrow> 0 \<le> x \<and> 0 \<le> y \<and> x + w \<le> 512 \<and> y + h \<le> 512)"

text \<open>The same for an accumulated box \<open>(x_min, y_min, x_max, y_max)\<close>.\<close>

definition box_in_tile :: "box \<Rightarrow> bool" where
  "box_in_tile bb =
     (case bb of (x_min, y_min, x_max, y_max) \<Rightarrow> 0 \<le> x_min \<and> 0 \<le> y_min \<and> x_max \<le> 512 \<and> y_max \<le> 512)"


subsection \<open>Library behaviours used in the examples\<close>

text \<open>
  The examples below run the engine against fixed library behaviours, test doubles for
  OpenCV and scikit-learn. A byte string is written as its base64 text.
  \<open>constant_raster h w px\<close> is the raster of height \<open>h\<close> and width \<open>w\<close> whose every
  pixel is \<open>px\<close>; resizing a raster of one pixel gives such a raster.
\<close>

definition constant_raster :: "nat \<Rightarrow> nat \<Rightarrow> nat list \<Rightarrow> image" where
  "constant_raster h w px = \<lparr>nd_shape = [h, w, length px], nd_data = concat (replicate (h * w) px)\<rparr>"

definition resize_one_pixel :: "image \<Rightarrow> nat \<times> nat \<Rightarrow> image" where
  "resize_one_pixel img sz = (case sz of (w, h) \<Rightarrow> constant_raster h w (nd_data img))"

text \<open>
  A library that decodes nothing, finds no feature, flags no pixel and finds no contour;
  it warps only to a \<^verbatim>\<open>dsize\<close> that is a pair of integers, as OpenCV does.
\<close>

definition quiet_library :: cv where
  "quiet_library =
     \<lparr>b64decode = (\<lambda>s. Inr s),
      imdecode = (\<lambda>bytes. Inr None),
      resize = resize_one_pixel,
      orb_match = (\<lambda>a b. Inr []),
      findHomography = (\<lambda>src dst. None),
      warpPerspective = (\<lambda>img M dsize. if is_size dsize \<and> M \<noteq> None then Inr img else Inl CvError),
      GaussianBlur = (\<lambda>img. img),
      IsolationForest = (\<lambda>contamination seed fs. (map (\<lambda>f. 0) fs, map (\<lambda>f. 1) fs)),
      morphologyEx_close = (\<lambda>m. m),
      findContours = (\<lambda>m. [])\<rparr>"

text \<open>
  \<^verbatim>\<open>DUMMY_BASE64\<close> of app.py, a PNG of one pixel with the four channels red, green,
  blue and alpha (255, 0, 0, 127); OpenCV decodes it to the raster of shape
  \<open>(1, 1, 4)\<close> with the channels in the order blue, green, red, alpha. The library
  \<open>png_library\<close> decodes this picture and nothing else.
\<close>

definition DUMMY_BASE64 :: string where
  "DUMMY_BASE64 =
     ''iVBORw0KGgoAAAANSUhEUgAAAAEAAAABCAYAAAAfFcSJAAAADUlEQVR42mP8z8BQDwAEhQGAhKmMIQAAAABJRU5ErkJggg==''"

definition dummy_pixel :: image where
  "dummy_pixel = \<lparr>nd_shape = [1, 1, 4], nd_data = [0, 0, 255, 127]\<rparr>"

definition png_library :: cv where
  "png_library =
     quiet_library\<lparr>imdecode := (\<lambda>bytes. if bytes = DUMMY_BASE64 then Inr (Some dummy_pixel) else Inr None)\<rparr>"

text \<open>
  ORB on blank rasters. A raster that is not a single 8-bit channel is first converted
  with \<^verbatim>\<open>cv2.cvtColor(image, COLOR_BGR2GRAY)\<close>, which takes three or four channels and
  raises \<^verbatim>\<open>cv2.error\<close> on any other number; a blank raster has no keypoint, so nothing
  matches.
\<close>

definition channels :: "image \<Rightarrow> nat" where
  "channels img = (case nd_shape img of [h, w, c] \<Rightarrow> c | _ \<Rightarrow> 1)"

definition orb_match_blank :: "image \<Rightarrow> image \<Rightarrow> exn + dmatch list" where
  "orb_match_blank a b =
     (if channels a \<in> {1, 3, 4} \<and> channels b \<in> {1, 3, 4} then Inr [] else Inl CvError)"

definition orb_library :: cv where
  "orb_library = quiet_library\<lparr>orb_match := orb_match_blank\<rparr>"

text \<open>The two indices of one pixel \<open>px\<close> (bands 2, 3 and 4 are red, NIR and SWIR).\<close>

definition ndvi_px :: "nat list \<Rightarrow> real" where
  "ndvi_px px = (real (px ! 3) - real (px ! 2)) / (real (px ! 3) + real (px ! 2) + eps)"

definition ndbi_px :: "nat list \<Rightarrow> real" where
  "ndbi_px px = (real (px ! 4) / 10000 - real (px ! 3) / 10000) /
                (real (px ! 4) / 10000 + real (px ! 3) / 10000 + eps)"

text \<open>
  Test doubles that let a call pass the stages OpenCV itself stops it at. They decode a
  name (\<open>blank\<close>, \<open>before\<close>, \<open>after\<close>) to a scene of five bands (blue, green, red,
  NIR, SWIR) of one pixel, which resizing spreads over the tile, and their feature matcher
  accepts five bands; \<^verbatim>\<open>cv2.imdecode\<close> yields at most four channels and ORB raises on
  five. \<open>blank_library\<close> knows the all-zero scene; \<open>speckle_library\<close> reports two
  contours of 12 pixels in its mask; \<open>survey_library\<close> knows a field before and after
  building, flags the first twentieth of the pixels with the score \<open>-0.1\<close> and reports
  one contour of 400 pixels, whose polygon is one point of four rows, a shape on which the
  comprehension of line 130 succeeds. The points of an OpenCV polygon have a single row
  each, as those of \<open>speck\<close> do, and line 130 raises on them: with OpenCV no call
  returns \<open>detected = True\<close>, and \<open>survey_library\<close> only serves to show that the
  hypotheses of a theorem about such a result can be met.
\<close>

definition blank_scene :: image where
  "blank_scene = \<lparr>nd_shape = [1, 1, 5], nd_data = [0, 0, 0, 0, 0]\<rparr>"

definition blank_library :: cv where
  "blank_library =
     quiet_library\<lparr>imdecode := (\<lambda>bytes. if bytes = ''blank'' then Inr (Some blank_scene) else Inr None)\<rparr>"

definition speck :: contour where
  "speck =
     \<lparr>contourArea = 12, boundingRect = (40, 40, 4, 4), arcLength = 14,
      approxPolyDP = (\<lambda>epsilon. [[[40, 40]], [[43, 40]], [[43, 43]], [[40, 43]]])\<rparr>"

definition speckle_library :: cv where
  "speckle_library = blank_library\<lparr>findContours := (\<lambda>m. [speck, speck])\<rparr>"

definition field_before :: image where
  "field_before = \<lparr>nd_shape = [1, 1, 5], nd_data = [20, 40, 30, 90, 20]\<rparr>"

definition field_after :: image where
  "field_after = \<lparr>nd_shape = [1, 1, 5], nd_data = [60, 60, 60, 60, 90]\<rparr>"

definition building :: contour where
  "building =
     \<lparr>contourArea = 400, boundingRect = (100, 120, 20, 20), arcLength = 80,
      approxPolyDP = (\<lambda>epsilon. [[[100, 120], [120, 120], [120, 140], [100, 140]]])\<rparr>"

definition flag_first_twentieth :: "real \<Rightarrow> nat \<Rightarrow> (real \<times> real) list \<Rightarrow> real list \<times> int list" where
  "flag_first_twentieth contamination seed fs =
     (let n = length fs; k = n div 20
      in (replicate k (- 1 / 10) @ replicate (n - k) (1 / 10),
          replicate k (- 1) @ replicate (n - k) 1))"

definition survey_library :: cv where
  "survey_library =
     quiet_library
       \<lparr>imdecode := (\<lambda>bytes. if bytes = ''before'' then Inr (Some field_before)
                              else if bytes = ''after'' then Inr (Some field_after) else Inr None),
        IsolationForest := flag_first_twentieth,
        findContours := (\<lambda>m. [building])\<rparr>"

definition survey_result :: "string \<Rightarrow> string \<Rightarrow> result" where
  "survey_result now out =
     Detection [100, 120, 120, 140] (slashes (path_join out (''mask_'' @ now @ ''.png''))) now
       (- 1 / 10) [[[[100, 120], [100, 140]]]]
       (ndvi_px [60, 60, 60, 60, 90] - ndvi_px [20, 40, 30, 90, 20])
       (ndbi_px [60, 60, 60, 60, 90] - ndbi_px [20, 40, 30, 90, 20])"

text \<open>The number of pixels of the tile.\<close>

definition tile :: nat where
  "tile = 512 * 512"

section \<open>Properties\<close>

subsection \<open>Elementwise arithmetic\<close>

lemma compute_ndvi_data:
  assumes "nd_shape nir = nd_shape red"
  shows "compute_ndvi nir red =
         Inr \<lparr>nd_shape = nd_shape nir,
              nd_data = map2 (\<lambda>n r. (n - r) / (n + r + eps)) (nd_data nir) (nd_data red)\<rparr>"
proof -
  have "map2 (\<lambda>a b. a / b) (map2 (\<lambda>a b. a - b) xs ys) (map (\<lambda>v. v + eps) (map2 (\<lambda>a b. a + b) xs ys))
        = map2 (\<lambda>n r. (n - r) / (n + r + eps)) xs ys" for xs ys :: "real list"
    by (induction xs ys rule: list_induct2') simp_all
  with assms show ?thesis
    by (simp add: compute_ndvi_def np_zip_def np_map_def)
qed

lemma compute_ndbi_data:
  assumes "nd_shape nir = nd_shape swir"
  shows "compute_ndbi nir swir =
         Inr \<lparr>nd_shape = nd_shape nir,
              nd_data = map2 (\<lambda>n s. (s / 10000 - n / 10000) / (s / 10000 + n / 10000 + eps))
                          (nd_data nir) (nd_data swir)\<rparr>"
proof -
  have "map2 (\<lambda>a b. a / b)
          (map2 (\<lambda>a b. a - b) (map (\<lambda>v. v / 10000) ys) (map (\<lambda>v. v / 10000) xs))
          (map (\<lambda>v. v + eps)
             (map2 (\<lambda>a b. a + b) (map (\<lambda>v. v / 10000) ys) (map (\<lambda>v. v / 10000) xs)))
        = map2 (\<lambda>n s. (s / 10000 - n / 10000) / (s / 10000 + n / 10000 + eps)) xs ys"
    for xs ys :: "real list"
    by (induction xs ys rule: list_induct2') simp_all
  with assms show ?thesis
    by (simp add: compute_ndbi_def np_zip_def np_map_def Let_def)
qed

text \<open>
  C5. For band arrays of one shape, \<open>compute_ndvi\<close> returns, pixel by pixel,
  \<open>(NIR - RED) / (NIR + RED + \<epsilon>)\<close>, and \<open>compute_ndbi\<close> returns
  \<open>(SWIR' - NIR') / (SWIR' + NIR' + \<epsilon>)\<close> where \<open>SWIR'\<close> and \<open>NIR'\<close> are the input bands
  divided by 10000 and \<open>\<epsilon>\<close> is one millionth. Both results have the shape of the
  inputs. (Floats are read as reals.)
\<close>

theorem spectral_indices_pixelwise:
  assumes "wf_array nir" and "wf_array red" and "wf_array swir"
    and "nd_shape red = nd_shape nir" and "nd_shape swir = nd_shape nir"
  shows "\<exists>ndvi ndbi.
           compute_ndvi nir red = Inr ndvi \<and> compute_ndbi nir swir = Inr ndbi \<and>
           nd_shape ndvi = nd_shape nir \<and> nd_shape ndbi = nd_shape nir \<and>
           wf_array ndvi \<and> wf_array ndbi \<and>
           (\<forall>i < length (nd_data nir).
              nd_data ndvi ! i =
                (nd_data nir ! i - nd_data red ! i) /
                (nd_data nir ! i + nd_data red ! i + 1 / 1000000) \<and>
              nd_data ndbi ! i =
                (nd_data swir ! i / 10000 - nd_data nir ! i / 10000) /
                (nd_data swir ! i / 10000 + nd_data nir ! i / 10000 + 1 / 1000000))"
proof -
  from assms have len: "length (nd_data red) = length (nd_data nir)"
      "length (nd_data swir) = length (nd_data nir)"
    by (simp_all add: wf_array_def)
  have v: "compute_ndvi nir red =
           Inr \<lparr>nd_shape = nd_shape nir,
                nd_data = map2 (\<lambda>n r. (n - r) / (n + r + eps)) (nd_data nir) (nd_data red)\<rparr>"
    using assms(4) by (simp add: compute_ndvi_data)
  have b: "compute_ndbi nir swir =
           Inr \<lparr>nd_shape = nd_shape nir,
                nd_data = map2 (\<lambda>n s. (s / 10000 - n / 10000) / (s / 10000 + n / 10000 + eps))
                            (nd_data nir) (nd_data swir)\<rparr>"
    using assms(5) by (simp add: compute_ndbi_data)
  show ?thesis
    unfolding v b using len assms(1) by (simp add: wf_array_def eps_def)
qed

text \<open>The theorem on a row of two pixels.\<close>

theorem spectral_indices_pixelwise_witness:
  "compute_ndvi \<lparr>nd_shape = [1, 2], nd_data = [3, 0]\<rparr> \<lparr>nd_shape = [1, 2], nd_data = [1, 0]\<rparr>
     = Inr \<lparr>nd_shape = [1, 2], nd_data = [2 / (4 + 1 / 1000000), 0]\<rparr> \<and>
   compute_ndbi \<lparr>nd_shape = [1, 2], nd_data = [3, 0]\<rparr> \<lparr>nd_shape = [1, 2], nd_data = [5, 0]\<rparr>
     = Inr \<lparr>nd_shape = [1, 2],
            nd_data = [(5 / 10000 - 3 / 10000) / (5 / 10000 + 3 / 10000 + 1 / 1000000), 0]\<rparr>"
proof -
  let ?nir = "\<lparr>nd_shape = [1, 2], nd_data = [3, 0 :: real]\<rparr>"
  let ?red = "\<lparr>nd_shape = [1, 2], nd_data = [1, 0 :: real]\<rparr>"
  let ?swir = "\<lparr>nd_shape = [1, 2], nd_data = [5, 0 :: real]\<rparr>"
  have h: "wf_array ?nir" "wf_array ?red" "wf_array ?swir"
      "nd_shape ?red = nd_shape ?nir" "nd_shape ?swir = nd_shape ?nir"
    by (simp_all add: wf_array_def)
  from spectral_indices_pixelwise [OF h]
  obtain ndvi ndbi where r: "compute_ndvi ?nir ?red = Inr ndvi" "compute_ndbi ?nir ?swir = Inr ndbi"
    and s: "nd_shape ndvi = [1, 2]" "nd_shape ndbi = [1, 2]"
    and w: "wf_array ndvi" "wf_array ndbi"
    and p: "\<forall>i < 2. nd_data ndvi ! i =
                (nd_data ?nir ! i - nd_data ?red ! i) /
                (nd_data ?nir ! i + nd_data ?red ! i + 1 / 1000000) \<and>
              nd_data ndbi ! i =
                (nd_data ?swir ! i / 10000 - nd_data ?nir ! i / 10000) /
                (nd_data ?swir ! i / 10000 + nd_data ?nir ! i / 10000 + 1 / 1000000)"
    by auto
  from w s have l: "length (nd_data ndvi) = 2" "length (nd_data ndbi) = 2"
    by (simp_all add: wf_array_def)
  from p have p0: "nd_data ndvi ! 0 = 2 / (4 + 1 / 1000000)"
      "nd_data ndbi ! 0 = (5 / 10000 - 3 / 10000) / (5 / 10000 + 3 / 10000 + 1 / 1000000)"
    and p1: "nd_data ndvi ! 1 = 0" "nd_data ndbi ! 1 = 0"
    by (simp_all add: eps_def)
  have two: "xs = [xs ! 0, xs ! 1]" if "length xs = 2" for xs :: "real list"
    using that by (cases xs; cases "tl xs") auto
  have dv: "nd_data ndvi = [2 / (4 + 1 / 1000000), 0]"
    using two [OF l(1)] p0(1) p1(1) by simp
  have db: "nd_data ndbi = [(5 / 10000 - 3 / 10000) / (5 / 10000 + 3 / 10000 + 1 / 1000000), 0]"
    using two [OF l(2)] p0(2) p1(2) by simp
  have "ndvi = \<lparr>nd_shape = [1, 2], nd_data = [2 / (4 + 1 / 1000000), 0]\<rparr>"
    using s(1) dv by (cases ndvi) simp
  moreover have "ndbi = \<lparr>nd_shape = [1, 2],
       nd_data = [(5 / 10000 - 3 / 10000) / (5 / 10000 + 3 / 10000 + 1 / 1000000), 0]\<rparr>"
    using s(2) db by (cases ndbi) simp
  ultimately show ?thesis using r by simp
qed

text \<open>
  C8. With the bounding box \<open>(minLon, minLat, maxLon, maxLat)\<close> and the tile size
  \<open>W = H = 512\<close>, the pixel \<open>(cx, cy)\<close> is mapped to
  \<open>lat = minLat + (cy / H) * (maxLat - minLat)\<close> and
  \<open>lon = minLon + (cx / W) * (maxLon - minLon)\<close>, returned as \<open>(lat, lon)\<close>; both
  bounding boxes the application can be configured with have this form.
\<close>

theorem px_to_ll_formula:
  "px_to_ll [minLon, minLat, maxLon, maxLat] cx cy =
     Inr (minLat + (cy / 512) * (maxLat - minLat), minLon + (cx / 512) * (maxLon - minLon)) \<and>
   px_to_ll (INDORE_BBOX None) cx cy =
     Inr (2258 / 100 + (cy / 512) * (2284 / 100 - 2258 / 100),
          7574 / 100 + (cx / 512) * (7602 / 100 - 7574 / 100)) \<and>
   px_to_ll (INDORE_BBOX (Some INDORE_BBOX_configa_h)) cx cy =
     Inr (227525 / 10000 + (cy / 512) * (227700 / 10000 - 227525 / 10000),
          758895 / 10000 + (cx / 512) * (759150 / 10000 - 758895 / 10000))"
  by (simp add: px_to_ll_def INDORE_BBOX_def INDORE_BBOX_default_def INDORE_BBOX_configa_h_def)

subsection \<open>Decoding\<close>

lemma decode_image_body_cases:
  "decode_image_body L s = Inl DetectionError \<or> (\<exists>img. decode_image_body L s = Inr img)"
  by (simp add: decode_image_body_def split: sum.splits option.splits)

lemma retry_from_returns: "retry_from left n (\<lambda>attempt. Inr v) = (Inr v, [])"
  by (cases left) simp_all

lemma retry_from_gives_up:
  "retry_from 2 (Suc 0) (\<lambda>attempt. Inl DetectionError) = (Inl RetryError, [2, 2])"
  by (simp add: numeral_2_eq_2 wait_exponential_def)

lemma wait_exponential_bounds:
  "2 \<le> wait_exponential 1 2 10 n \<and> wait_exponential 1 2 10 n \<le> 10"
  by (simp add: wait_exponential_def)

lemma decode_image_log_eq:
  "decode_image_log L s =
     (case decode_image_body L s of
        Inr img \<Rightarrow> (Inr img, [])
      | Inl e \<Rightarrow> (Inl RetryError, [2, 2]))"
  using decode_image_body_cases [of L s]
  by (auto simp: decode_image_log_def retry_from_returns retry_from_gives_up)

lemma decode_image_eq:
  "decode_image L s =
     (case decode_image_body L s of Inr img \<Rightarrow> Inr img | Inl e \<Rightarrow> Inl RetryError)"
  by (simp add: decode_image_def decode_image_log_eq split: sum.splits)

text \<open>
  C3, as the code has it. One attempt of \<open>decode_image\<close> yields a raster or a
  \<open>DetectionError\<close>. A raster is returned at once and is the raster the codec produced,
  whatever its size and band count. Every failure is retried: the call makes three attempts,
  sleeps 2 s after the first and 2 s after the second, and ends with tenacity's
  \<open>RetryError\<close>. Every wait of the policy lies between 2 s and 10 s.
\<close>

theorem decode_image_retries_every_failure:
  "(decode_image_body L s = Inl DetectionError \<or> (\<exists>img. decode_image_body L s = Inr img)) \<and>
   decode_image_log L s =
     (case decode_image_body L s of
        Inr img \<Rightarrow> (Inr img, [])
      | Inl e \<Rightarrow> (Inl RetryError, [2, 2])) \<and>
   (decode_image L s = Inr img) =
     (\<exists>bytes. b64decode L s = Inr bytes \<and> imdecode L bytes = Inr (Some img)) \<and>
   (\<forall>n. 2 \<le> wait_exponential 1 2 10 n \<and> wait_exponential 1 2 10 n \<le> 10)"
proof -
  have "(decode_image L s = Inr img) = (decode_image_body L s = Inr img)"
    by (simp add: decode_image_eq split: sum.splits)
  also have "\<dots> = (\<exists>bytes. b64decode L s = Inr bytes \<and> imdecode L bytes = Inr (Some img))"
    by (auto simp: decode_image_body_def split: sum.splits option.splits)
  finally show ?thesis
    using decode_image_log_eq decode_image_body_cases wait_exponential_bounds by blast
qed

text \<open>
  C3 as stated fails twice. The picture of app.py decodes to a raster of four bands, which
  \<open>decode_image\<close> returns; and the text \<open>AAAA\<close> (three zero bytes, no picture) is not
  rejected at once: it is tried three times, with two waits, and ends in \<open>RetryError\<close>.
\<close>

theorem decode_image_counterexample:
  "decode_image png_library DUMMY_BASE64 = Inr dummy_pixel \<and>
   nd_shape dummy_pixel = [1, 1, 4] \<and>
   decode_image_log png_library ''AAAA'' = (Inl RetryError, [2, 2])"
proof -
  have a: "decode_image_body png_library DUMMY_BASE64 = Inr dummy_pixel"
    by (simp add: decode_image_body_def png_library_def quiet_library_def)
  have b: "decode_image_body png_library ''AAAA'' = Inl DetectionError"
    by (simp add: decode_image_body_def png_library_def quiet_library_def DUMMY_BASE64_def)
  show ?thesis
    by (simp add: decode_image_eq decode_image_log_eq a b dummy_pixel_def)
qed

subsection \<open>Alignment\<close>

lemma align_images_few_matches:
  "orb_match L img1 img2 = Inr found \<Longrightarrow> length found < 4 \<Longrightarrow> align_images L img1 img2 = Inr img2"
  by (simp add: align_images_def try_then_def)


lemma preprocess_few_matches:
  assumes "decode_image L old_b64 = Inr old_img" and "decode_image L new_b64 = Inr new_img"
    and "orb_match L (resize L old_img (512, 512)) (resize L new_img (512, 512)) = Inr found"
    and "length found < 4"
  shows "preprocess L old_b64 new_b64
           = Inr (GaussianBlur L (resize L old_img (512, 512)),
                  GaussianBlur L (resize L new_img (512, 512)))"
  using assms
  by (simp add: preprocess_def resize_images_def try_then_def align_images_few_matches)

text \<open>
  With four matches or more the second raster is warped with a \<^verbatim>\<open>dsize\<close> whose second
  component is a tuple; a library that accepts only pairs of integers raises.
\<close>

lemma align_images_many_matches:
  assumes "orb_match L img1 img2 = Inr found" and "4 \<le> length found"
    and "1 < length (nd_shape img1)"
    and "\<And>img M d. \<not> is_size d \<Longrightarrow> warpPerspective L img M d = Inl CvError"
  shows "align_images L img1 img2 = Inl CvError"
  using assms by (simp add: align_images_def try_then_def py_nth_def)






text \<open>Nothing in \<^verbatim>\<open>align_images\<close> catches what the feature matcher raises.\<close>

lemma align_images_orb_raises:
  "orb_match L img1 img2 = Inl e \<Longrightarrow> align_images L img1 img2 = Inl e"
  by (simp add: align_images_def try_then_def)

text \<open>
  C4 on the code. Two identical blank scenes of five bands, resized to the tile: ORB raises
  on a raster of five channels, \<^verbatim>\<open>align_images\<close> raises with it, and the branch for
  fewer than four matches is never reached. The branch does what it says where ORB
  returns, as on blank rasters of four channels: the target comes back unchanged.
\<close>

theorem align_images_blank_scenes_raise:
  "orb_match orb_library (constant_raster 512 512 [0, 0, 0, 0, 0]) (constant_raster 512 512 [0, 0, 0, 0, 0])
     = Inl CvError \<and>
   align_images orb_library (constant_raster 512 512 [0, 0, 0, 0, 0]) (constant_raster 512 512 [0, 0, 0, 0, 0])
     = Inl CvError \<and>
   align_images orb_library (constant_raster 512 512 [0, 0, 0, 0]) (constant_raster 512 512 [0, 0, 0, 0])
     = Inr (constant_raster 512 512 [0, 0, 0, 0])"
proof -
  have five: "orb_match orb_library (constant_raster 512 512 [0, 0, 0, 0, 0])
      (constant_raster 512 512 [0, 0, 0, 0, 0]) = Inl CvError"
    by (simp add: orb_library_def quiet_library_def orb_match_blank_def channels_def constant_raster_def)
  have four: "orb_match orb_library (constant_raster 512 512 [0, 0, 0, 0])
      (constant_raster 512 512 [0, 0, 0, 0]) = Inr []"
    by (simp add: orb_library_def quiet_library_def orb_match_blank_def channels_def constant_raster_def)
  have few: "length ([] :: dmatch list) < 4" by simp
  from five align_images_orb_raises [OF five] align_images_few_matches [OF four few]
  show ?thesis by (intro conjI)
qed

subsection \<open>Constant rasters\<close>

lemma nth_concat_replicate:
  "p < n \<Longrightarrow> k < length px \<Longrightarrow> concat (replicate n px) ! (p * length px + k) = px ! k"
proof (induction n arbitrary: p)
  case 0
  then show ?case by simp
next
  case (Suc n)
  show ?case
  proof (cases p)
    case 0
    with Suc.prems show ?thesis by (simp add: nth_append)
  next
    case (Suc q)
    with Suc.prems Suc.IH [of q] show ?thesis by (simp add: nth_append)
  qed
qed

lemma band_constant:
  assumes "k < length px"
  shows "band (constant_raster h w px) k = Inr \<lparr>nd_shape = [h, w], nd_data = replicate (h * w) (px ! k)\<rparr>"
proof -
  have "map (\<lambda>p. concat (replicate (h * w) px) ! (p * length px + k)) [0..<h * w]
        = map (\<lambda>p. px ! k) [0..<h * w]"
    by (rule map_cong) (simp_all add: nth_concat_replicate assms)
  also have "\<dots> = replicate (h * w) (px ! k)"
    by (simp add: map_replicate_const)
  finally show ?thesis
    using assms by (simp add: band_def constant_raster_def)
qed

lemma float_band_constant:
  "k < length px \<Longrightarrow>
   float_band (constant_raster h w px) k =
     Inr \<lparr>nd_shape = [h, w], nd_data = replicate (h * w) (real (px ! k))\<rparr>"
  by (simp add: float_band_def band_constant try_then_def np_map_def)

lemma index_deltas_constant:
  assumes "4 < length a" and "4 < length b"
  shows "index_deltas (constant_raster h w a) (constant_raster h w b) =
         Inr (\<lparr>nd_shape = [h, w], nd_data = replicate (h * w) (ndvi_px b - ndvi_px a)\<rparr>,
              \<lparr>nd_shape = [h, w], nd_data = replicate (h * w) (ndbi_px b - ndbi_px a)\<rparr>)"
  using assms
  by (simp add: index_deltas_def float_band_constant try_then_def compute_ndvi_data
      compute_ndbi_data np_zip_def zip_replicate ndvi_px_def ndbi_px_def)


subsection \<open>The call as a whole\<close>

lemma detect_hit:
  "mask_cache s (cache_key old new) = Some r \<Longrightarrow>
   detect_illegal_construction L now s old new out = (Inr r, s)"
  by (simp add: detect_illegal_construction_def)

lemma detect_miss:
  assumes "mask_cache s (cache_key old new) = None"
    and "feature_stage L old new = Inr (ndvi_diff, ndbi_diff, features)"
    and "IsolationForest L (5 / 100) 42 features = (scores, preds)"
  shows "detect_illegal_construction L now s old new out =
     (case region_stage L (nd_shape ndvi_diff) preds of
        Inl e \<Rightarrow> (Inl e, s\<lparr>scorer_fits := Suc (scorer_fits s)\<rparr>)
      | Inr None \<Rightarrow> (Inr NoDetection, s\<lparr>scorer_fits := Suc (scorer_fits s)\<rparr>)
      | Inr (Some (anomaly_mask, bb, polys)) \<Rightarrow>
          (Inr (Detection [fst bb, fst (snd bb), fst (snd (snd bb)), snd (snd (snd bb))]
                  (slashes (path_join out (''mask_'' @ now @ ''.png''))) now
                  (round2 (mean_flagged scores preds)) polys
                  (np_mean (nd_data ndvi_diff)) (np_mean (nd_data ndbi_diff))),
           s\<lparr>scorer_fits := Suc (scorer_fits s),
              mask_files := mask_files s @ [(path_join out (''mask_'' @ now @ ''.png''), anomaly_mask)],
              mask_cache := (mask_cache s)(cache_key old new \<mapsto>
                Detection [fst bb, fst (snd bb), fst (snd (snd bb)), snd (snd (snd bb))]
                  (slashes (path_join out (''mask_'' @ now @ ''.png''))) now
                  (round2 (mean_flagged scores preds)) polys
                  (np_mean (nd_data ndvi_diff)) (np_mean (nd_data ndbi_diff)))\<rparr>))"
  using assms
  by (simp add: detect_illegal_construction_def Let_def split: sum.splits option.splits prod.splits)

lemma detect_miss_feature_error:
  "mask_cache s (cache_key old new) = None \<Longrightarrow> feature_stage L old new = Inl e \<Longrightarrow>
   detect_illegal_construction L now s old new out = (Inl e, s)"
  by (simp add: detect_illegal_construction_def)

text \<open>
  Nor does the function: an exception of the matcher ends the call, and the state is left
  as it was.
\<close>

lemma detect_orb_raises:
  assumes "mask_cache s (cache_key old_b64 new_b64) = None"
    and "decode_image L old_b64 = Inr old_img" and "decode_image L new_b64 = Inr new_img"
    and "orb_match L (resize L old_img (512, 512)) (resize L new_img (512, 512)) = Inl e"
  shows "detect_illegal_construction L now s old_b64 new_b64 out = (Inl e, s)"
proof -
  have "preprocess L old_b64 new_b64 = Inl e"
    using assms(2-4) by (simp add: preprocess_def resize_images_def try_then_def align_images_orb_raises)
  then have "feature_stage L old_b64 new_b64 = Inl e"
    by (simp add: feature_stage_def try_then_def)
  with assms(1) show ?thesis by (simp add: detect_miss_feature_error)
qed

lemma region_loop_all_small:
  "\<forall>c \<in> set cs. contourArea c < 50 \<Longrightarrow> region_loop cs acc = Inr acc"
  by (induction cs acc rule: region_loop.induct) simp_all

lemma region_stage_eq:
  assumes "np_reshape preds shp = Inr grid"
    and "findContours L (morphologyEx_close L (np_map (\<lambda>p. if p = - 1 then 255 else 0) grid)) = contours"
  shows "region_stage L shp preds =
     (if contours = [] then Inr None
      else case region_loop contours ((512, 512, 0, 0), []) of
             Inl e \<Rightarrow> Inl e
           | Inr (bb, polys) \<Rightarrow>
               if degenerate bb then Inr None
               else Inr (Some (morphologyEx_close L (np_map (\<lambda>p. if p = - 1 then 255 else 0) grid), bb, polys)))"
proof (cases contours)
  case Nil
  with assms show ?thesis by (simp add: region_stage_def try_then_def)
next
  case (Cons c cs)
  with assms show ?thesis
    by (simp add: region_stage_def try_then_def del: region_loop.simps split: sum.splits)
qed

text \<open>
  C2. Take a call that misses the cache and reaches the contours of its anomaly mask. If
  no contour has an area of 50 or more, or the loop over the contours ends with a
  degenerate overall box, the call returns \<^verbatim>\<open>{"detected": False}\<close>, a dictionary with no
  region in it, and raises nothing; the cache is left as it was.
\<close>

theorem no_surviving_contour_no_detection:
  assumes miss: "mask_cache s (cache_key old new) = None"
    and feat: "feature_stage L old new = Inr (ndvi_diff, ndbi_diff, features)"
    and fit: "IsolationForest L (5 / 100) 42 features = (scores, preds)"
    and grid: "np_reshape preds (nd_shape ndvi_diff) = Inr grid"
    and cs: "findContours L (morphologyEx_close L (np_map (\<lambda>p. if p = - 1 then 255 else 0) grid)) = contours"
    and small: "(\<forall>c \<in> set contours. contourArea c < 50) \<or>
                (\<exists>bb polys. region_loop contours ((512, 512, 0, 0), []) = Inr (bb, polys) \<and> degenerate bb)"
  shows "detect_illegal_construction L now s old new out =
           (Inr NoDetection, s\<lparr>scorer_fits := Suc (scorer_fits s)\<rparr>)"
proof -
  have "\<exists>bb polys. region_loop contours ((512, 512, 0, 0), []) = Inr (bb, polys) \<and> degenerate bb"
    using small
  proof
    assume "\<forall>c \<in> set contours. contourArea c < 50"
    then have "region_loop contours ((512, 512, 0, 0), []) = Inr ((512, 512, 0, 0), [])"
      by (rule region_loop_all_small)
    then show ?thesis by (simp add: degenerate_def)
  qed
  then obtain bb polys where loop: "region_loop contours ((512, 512, 0, 0), []) = Inr (bb, polys)"
    and deg: "degenerate bb" by blast
  have "region_stage L (nd_shape ndvi_diff) preds = Inr None"
    using loop deg by (simp add: region_stage_eq [OF grid cs])
  then show ?thesis
    by (simp add: detect_miss [OF miss feat fit])
qed


lemma region_loop_in_tile:
  assumes "\<forall>c \<in> set cs. in_tile (boundingRect c)"
    and "region_loop cs (bb, ps) = Inr (bb', qs)"
    and "box_in_tile bb"
  shows "box_in_tile bb'"
  using assms
proof (induction cs arbitrary: bb ps)
  case Nil
  then show ?case by simp
next
  case (Cons k ks)
  obtain x_min y_min x_max y_max where bb: "bb = (x_min, y_min, x_max, y_max)"
    by (cases bb) auto
  show ?case
  proof (cases "contourArea k < 50")
    case True
    with Cons bb show ?thesis by simp
  next
    case False
    obtain x y w h where r: "boundingRect k = (x, y, w, h)" by (cases "boundingRect k") auto
    from Cons.prems(1) r have t: "0 \<le> x" "0 \<le> y" "x + w \<le> 512" "y + h \<le> 512"
      by (auto simp: in_tile_def)
    from Cons.prems(2) False r bb obtain poly where
      l: "region_loop ks ((min x x_min, min y y_min, max (x + w) x_max, max (y + h) y_max),
                 ps @ [poly]) = Inr (bb', qs)"
      by (auto simp: try_then_def split: sum.splits)
    have "box_in_tile (min x x_min, min y y_min, max (x + w) x_max, max (y + h) y_max)"
      using Cons.prems(3) t bb by (simp add: box_in_tile_def)
    with Cons.IH [OF _ l] Cons.prems(1) show ?thesis by simp
  qed
qed

lemma region_stage_box:
  assumes "\<forall>m. \<forall>c \<in> set (findContours L m). in_tile (boundingRect c)"
    and "region_stage L shp preds = Inr (Some (m, (x_min, y_min, x_max, y_max), polys))"
  shows "0 \<le> x_min \<and> x_min < x_max \<and> x_max \<le> 512 \<and> 0 \<le> y_min \<and> y_min < y_max \<and> y_max \<le> 512"
proof -
  from assms(2) obtain grid where g: "np_reshape preds shp = Inr grid"
    by (auto simp: region_stage_def try_then_def split: sum.splits)
  define cs where "cs = findContours L (morphologyEx_close L (np_map (\<lambda>p. if p = - 1 then 255 else 0) grid))"
  from assms(2) have loop: "region_loop cs ((512, 512, 0, 0), []) = Inr ((x_min, y_min, x_max, y_max), polys)"
    and nd: "\<not> degenerate (x_min, y_min, x_max, y_max)"
    unfolding region_stage_eq [OF g cs_def [symmetric]]
    by (auto split: if_splits sum.splits)
  have "box_in_tile (x_min, y_min, x_max, y_max)"
    by (rule region_loop_in_tile [OF _ loop]) (use assms(1) in \<open>auto simp: cs_def box_in_tile_def\<close>)
  with nd show ?thesis by (auto simp: box_in_tile_def degenerate_def)
qed

lemma detect_outcome:
  assumes "mask_cache s (cache_key old new) = None"
    and "detect_illegal_construction L now s old new out = (Inr r, s')" and "detected r"
  shows "\<exists>ndvi_diff ndbi_diff features m bb polys.
           feature_stage L old new = Inr (ndvi_diff, ndbi_diff, features) \<and>
           region_stage L (nd_shape ndvi_diff) (snd (IsolationForest L (5 / 100) 42 features))
             = Inr (Some (m, bb, polys)) \<and>
           r = Detection [fst bb, fst (snd bb), fst (snd (snd bb)), snd (snd (snd bb))]
                  (slashes (path_join out (''mask_'' @ now @ ''.png''))) now
                  (round2 (mean_flagged (fst (IsolationForest L (5 / 100) 42 features))
                                        (snd (IsolationForest L (5 / 100) 42 features)))) polys
                  (np_mean (nd_data ndvi_diff)) (np_mean (nd_data ndbi_diff)) \<and>
           mask_cache s' = (mask_cache s)(cache_key old new \<mapsto> r) \<and>
           scorer_fits s' = Suc (scorer_fits s)"
proof (cases "feature_stage L old new")
  case (Inl e)
  with assms show ?thesis by (simp add: detect_miss_feature_error)
next
  case (Inr t)
  obtain v b fs where t: "t = (v, b, fs)" by (cases t) auto
  obtain scores preds where f: "IsolationForest L (5 / 100) 42 fs = (scores, preds)"
    by (cases "IsolationForest L (5 / 100) 42 fs") auto
  from assms(2,3) show ?thesis
    unfolding detect_miss [OF assms(1) Inr [unfolded t] f]
    using Inr t f
    by (auto simp: detected_def split: sum.splits option.splits prod.splits)
qed


lemma detect_cache_cases:
  assumes "detect_illegal_construction L now s old new out = (outcome, s')"
  shows "(mask_cache s' = mask_cache s \<and>
          (\<forall>r. outcome = Inr r \<longrightarrow> detected r \<longrightarrow> mask_cache s (cache_key old new) = Some r)) \<or>
         (mask_cache s (cache_key old new) = None \<and>
          (\<exists>r. outcome = Inr r \<and> detected r \<and> mask_cache s' = (mask_cache s)(cache_key old new \<mapsto> r)))"
proof (cases "mask_cache s (cache_key old new)")
  case (Some r)
  with assms show ?thesis by (auto simp: detect_hit)
next
  case None
  show ?thesis
  proof (cases "\<exists>r. outcome = Inr r \<and> detected r")
    case True
    then obtain r where r: "outcome = Inr r" "detected r" by blast
    from detect_outcome [OF None assms [unfolded r(1)] r(2)] r None show ?thesis by auto
  next
    case False
    have "mask_cache s' = mask_cache s"
    proof (cases "feature_stage L old new")
      case (Inl e)
      with assms None show ?thesis by (simp add: detect_miss_feature_error)
    next
      case (Inr t)
      obtain v b fs where t: "t = (v, b, fs)" by (cases t) auto
      obtain scores preds where f: "IsolationForest L (5 / 100) 42 fs = (scores, preds)"
        by (cases "IsolationForest L (5 / 100) 42 fs") auto
      from assms False show ?thesis
        unfolding detect_miss [OF None Inr [unfolded t] f]
        by (auto simp: detected_def split: sum.splits option.splits prod.splits)
    qed
    with False show ?thesis by auto
  qed
qed

lemma reachable_results:
  assumes fresh: "\<And>s now old new out r s'.
      mask_cache s (cache_key old new) = None \<Longrightarrow>
      detect_illegal_construction L now s old new out = (Inr r, s') \<Longrightarrow> detected r \<Longrightarrow> P r"
    and "reachable L s"
  shows "mask_cache s k = Some r \<Longrightarrow> detected r \<Longrightarrow> P r"
  using assms(2)
proof (induction arbitrary: k r rule: reachable.induct)
  case start
  then show ?case by (simp add: initial_state_def)
next
  case (call s now old new out outcome s')
  from detect_cache_cases [OF call.hyps(2)] show ?case
  proof
    assume "mask_cache s' = mask_cache s \<and>
          (\<forall>r. outcome = Inr r \<longrightarrow> detected r \<longrightarrow> mask_cache s (cache_key old new) = Some r)"
    with call show ?thesis by simp
  next
    assume a: "mask_cache s (cache_key old new) = None \<and>
          (\<exists>r. outcome = Inr r \<and> detected r \<and> mask_cache s' = (mask_cache s)(cache_key old new \<mapsto> r))"
    then obtain q where q: "outcome = Inr q" "detected q"
      "mask_cache s' = (mask_cache s)(cache_key old new \<mapsto> q)" by blast
    have "P q" using fresh [of s old new now out q s'] a call.hyps(2) q by simp
    with call.prems call.IH q show ?thesis by (auto split: if_splits)
  qed
next
  case (expire s keep)
  then show ?case by (auto simp: restrict_map_def split: if_splits)
qed

lemma returned_results:
  assumes fresh: "\<And>s now old new out r s'.
      mask_cache s (cache_key old new) = None \<Longrightarrow>
      detect_illegal_construction L now s old new out = (Inr r, s') \<Longrightarrow> detected r \<Longrightarrow> P r"
    and "reachable L s"
    and "detect_illegal_construction L now s old new out = (Inr r, s')" and "detected r"
  shows "P r"
proof (cases "mask_cache s (cache_key old new)")
  case None
  with assms show ?thesis by blast
next
  case (Some q)
  with assms(3) have q: "q = r" by (simp add: detect_hit)
  with assms(4) have dq: "detected q" by simp
  have "P q"
    by (rule reachable_results [where P = P, OF _ assms(2) Some dq]) (erule (2) fresh)
  with q show ?thesis by simp
qed

text \<open>
  C10. Let every bounding rectangle the library reports lie in the 512 x 512 tile. Then in
  every state the module can reach, a returned result with \<open>detected = True\<close>, computed
  or taken from the cache, has a box \<open>[x_min, y_min, x_max, y_max]\<close> with
  \<open>0 \<le> x_min < x_max \<le> 512\<close> and \<open>0 \<le> y_min < y_max \<le> 512\<close>.
\<close>

theorem detected_bbox_in_tile:
  assumes lib: "\<forall>m. \<forall>c \<in> set (findContours L m). in_tile (boundingRect c)"
    and "reachable L s"
    and "detect_illegal_construction L now s old new out = (Inr r, s')"
    and "detected r"
  shows "\<exists>x_min y_min x_max y_max.
           res_bbox r = [x_min, y_min, x_max, y_max] \<and>
           0 \<le> x_min \<and> x_min < x_max \<and> x_max \<le> 512 \<and> 0 \<le> y_min \<and> y_min < y_max \<and> y_max \<le> 512"
proof (rule returned_results [OF _ assms(2,3,4)])
  fix s now old new out r s'
  assume miss: "mask_cache s (cache_key old new) = None"
    and run: "detect_illegal_construction L now s old new out = (Inr r, s')" and det: "detected r"
  from detect_outcome [OF miss run det] obtain v b fs m bb polys where
    "feature_stage L old new = Inr (v, b, fs)"
    and st: "region_stage L (nd_shape v) (snd (IsolationForest L (5 / 100) 42 fs)) = Inr (Some (m, bb, polys))"
    and r': "r = Detection [fst bb, fst (snd bb), fst (snd (snd bb)), snd (snd (snd bb))]
                  (slashes (path_join out (''mask_'' @ now @ ''.png''))) now
                  (round2 (mean_flagged (fst (IsolationForest L (5 / 100) 42 fs))
                                        (snd (IsolationForest L (5 / 100) 42 fs)))) polys
                  (np_mean (nd_data v)) (np_mean (nd_data b))"
    by (elim exE conjE) (rule that)
  from r' have r: "res_bbox r = [fst bb, fst (snd bb), fst (snd (snd bb)), snd (snd (snd bb))]"
    by simp
  obtain x0 y0 x1 y1 where bb: "bb = (x0, y0, x1, y1)" by (cases bb) auto
  from region_stage_box [OF lib st [unfolded bb]] r bb
  show "\<exists>x_min y_min x_max y_max.
           res_bbox r = [x_min, y_min, x_max, y_max] \<and>
           0 \<le> x_min \<and> x_min < x_max \<and> x_max \<le> 512 \<and> 0 \<le> y_min \<and> y_min < y_max \<and> y_max \<le> 512"
    by simp
qed

text \<open>
  OpenCV returns a polygon as an array of shape \<open>(N, 1, 2)\<close>: every point has the single
  row \<open>[x, y]\<close>. Row 3 of such a point does not exist, so a contour that passes the area
  filter with such a polygon ends the loop in \<open>IndexError\<close>.
\<close>

lemma polygon_points_single_row:
  assumes "approx \<noteq> []" and "length (hd approx) = 1"
  shows "polygon_points approx = Inl IndexError"
  using assms by (cases approx) (simp_all add: try_then_def py_nth_def)

lemma region_loop_single_row:
  assumes "\<not> contourArea c < 50" and "approxPolyDP c (0.01 * arcLength c) \<noteq> []"
    and "length (hd (approxPolyDP c (0.01 * arcLength c))) = 1"
  shows "region_loop (c # cs) (bb, ps) = Inl IndexError"
  using assms polygon_points_single_row [OF assms(2,3)]
  by (cases bb; cases "boundingRect c") (simp add: try_then_def)





subsection \<open>Cache\<close>


text \<open>
  The key is made of the first 50 characters of each text, so a pair that shares them with
  a cached pair gets the cached pair's result.
\<close>

lemma detect_hit_shared_prefix:
  assumes "mask_cache s (cache_key old new) = Some cached"
    and "take 50 old' = take 50 old" and "take 50 new' = take 50 new"
  shows "detect_illegal_construction L now s old' new' out = (Inr cached, s)"
proof -
  from assms(2,3) have "cache_key old' new' = cache_key old new"
    by (simp add: cache_key_def)
  with assms(1) show ?thesis by (simp add: detect_hit)
qed



subsection \<open>The examples\<close>

lemma one_pixel_features:
  assumes d1: "decode_image L old = Inr \<lparr>nd_shape = [1, 1, 5], nd_data = a\<rparr>"
    and d2: "decode_image L new = Inr \<lparr>nd_shape = [1, 1, 5], nd_data = b\<rparr>"
    and la: "length a = 5" and lb: "length b = 5"
    and rs: "resize L = resize_one_pixel" and om: "\<And>x y. orb_match L x y = Inr []"
    and bl: "\<And>x. GaussianBlur L x = x"
  shows "feature_stage L old new =
     Inr (\<lparr>nd_shape = [512, 512], nd_data = replicate tile (ndvi_px b - ndvi_px a)\<rparr>,
          \<lparr>nd_shape = [512, 512], nd_data = replicate tile (ndbi_px b - ndbi_px a)\<rparr>,
          replicate tile (ndvi_px b - ndvi_px a, ndbi_px b - ndbi_px a))"
proof -
  have few: "length ([] :: dmatch list) < 4" by simp
  have pre: "preprocess L old new = Inr (constant_raster 512 512 a, constant_raster 512 512 b)"
    using preprocess_few_matches [OF d1 d2 om few]
    by (simp add: rs bl resize_one_pixel_def)
  have idx: "index_deltas (constant_raster 512 512 a) (constant_raster 512 512 b) =
     Inr (\<lparr>nd_shape = [512, 512], nd_data = replicate (512 * 512) (ndvi_px b - ndvi_px a)\<rparr>,
          \<lparr>nd_shape = [512, 512], nd_data = replicate (512 * 512) (ndbi_px b - ndbi_px a)\<rparr>)"
    by (rule index_deltas_constant) (simp_all add: la lb)
  show ?thesis
    unfolding feature_stage_def pre tile_def
    by (simp add: try_then_def idx np_stack2_def zip_replicate)
qed


lemma np_mean_replicate: "0 < n \<Longrightarrow> np_mean (replicate n x) = x"
  by (simp add: np_mean_def sum_list_replicate)

lemma flag_first_twentieth_mean:
  assumes "20 \<le> length fs"
  shows "mean_flagged (fst (flag_first_twentieth c seed fs)) (snd (flag_first_twentieth c seed fs)) = - 1 / 10"
proof -
  from assms have k: "0 < length fs div 20" by (simp add: div_greater_zero_iff)
  have "flagged_scores (fst (flag_first_twentieth c seed fs)) (snd (flag_first_twentieth c seed fs))
        = replicate (length fs div 20) (- 1 / 10)"
    by (simp add: flagged_scores_def flag_first_twentieth_def Let_def zip_replicate)
  with k show ?thesis
    by (simp add: mean_flagged_def np_mean_replicate flag_first_twentieth_def Let_def)
qed

lemma flag_first_twentieth_length:
  "length (snd (flag_first_twentieth c seed fs)) = length fs"
  by (simp add: flag_first_twentieth_def Let_def)

lemma survey_decode:
  "decode_image survey_library ''before'' = Inr field_before"
  "decode_image survey_library ''after'' = Inr field_after"
  by (simp_all add: decode_image_eq decode_image_body_def survey_library_def quiet_library_def)

lemma survey_features:
  "feature_stage survey_library ''before'' ''after'' =
     Inr (\<lparr>nd_shape = [512, 512],
            nd_data = replicate tile (ndvi_px [60, 60, 60, 60, 90] - ndvi_px [20, 40, 30, 90, 20])\<rparr>,
          \<lparr>nd_shape = [512, 512],
            nd_data = replicate tile (ndbi_px [60, 60, 60, 60, 90] - ndbi_px [20, 40, 30, 90, 20])\<rparr>,
          replicate tile (ndvi_px [60, 60, 60, 60, 90] - ndvi_px [20, 40, 30, 90, 20],
                          ndbi_px [60, 60, 60, 60, 90] - ndbi_px [20, 40, 30, 90, 20]))"
  using one_pixel_features [of survey_library "''before''" "[20, 40, 30, 90, 20]" "''after''" "[60, 60, 60, 60, 90]"]
    survey_decode
  by (simp add: field_before_def field_after_def survey_library_def quiet_library_def)

lemma survey_loop:
  "region_loop [building] ((512, 512, 0, 0), []) = Inr ((100, 120, 120, 140), [[[[100, 120], [100, 140]]]])"
  by (simp add: building_def try_then_def py_nth_def)

lemma survey_region:
  assumes "length preds = tile"
  shows "region_stage survey_library [512, 512] preds =
     Inr (Some (\<lparr>nd_shape = [512, 512], nd_data = map (\<lambda>p. if p = - 1 then 255 else 0) preds\<rparr>,
                (100, 120, 120, 140), [[[[100, 120], [100, 140]]]]))"
proof -
  have g: "np_reshape preds [512, 512] = Inr \<lparr>nd_shape = [512, 512], nd_data = preds\<rparr>"
    using assms by (simp add: np_reshape_def tile_def)
  have c: "findContours survey_library (morphologyEx_close survey_library
              (np_map (\<lambda>p. if p = - 1 then 255 else 0) \<lparr>nd_shape = [512, 512], nd_data = preds\<rparr>)) = [building]"
    by (simp add: survey_library_def quiet_library_def)
  show ?thesis
    unfolding region_stage_eq [OF g c] survey_loop
    by (simp add: degenerate_def survey_library_def quiet_library_def np_map_def)
qed

lemma survey_run:
  assumes "mask_cache s (cache_key ''before'' ''after'') = None"
  shows "detect_illegal_construction survey_library now s ''before'' ''after'' out =
           (Inr (survey_result now out),
            s\<lparr>scorer_fits := Suc (scorer_fits s),
              mask_files := mask_files s @
                [(path_join out (''mask_'' @ now @ ''.png''),
                  \<lparr>nd_shape = [512, 512],
                    nd_data = map (\<lambda>p. if p = - 1 then 255 else 0)
                      (snd (flag_first_twentieth (5 / 100) 42
                         (replicate tile (ndvi_px [60, 60, 60, 60, 90] - ndvi_px [20, 40, 30, 90, 20],
                                          ndbi_px [60, 60, 60, 60, 90] - ndbi_px [20, 40, 30, 90, 20]))))\<rparr>)],
              mask_cache := (mask_cache s)(cache_key ''before'' ''after'' \<mapsto> survey_result now out)\<rparr>)"
proof -
  let ?fs = "replicate tile (ndvi_px [60, 60, 60, 60, 90] - ndvi_px [20, 40, 30, 90, 20],
                            ndbi_px [60, 60, 60, 60, 90] - ndbi_px [20, 40, 30, 90, 20])"
  have fit: "IsolationForest survey_library (5 / 100) 42 ?fs =
      (fst (flag_first_twentieth (5 / 100) 42 ?fs), snd (flag_first_twentieth (5 / 100) 42 ?fs))"
    by (simp add: survey_library_def quiet_library_def)
  have big: "20 \<le> tile" and pos: "0 < tile" by (simp_all add: tile_def)
  show ?thesis
    unfolding detect_miss [OF assms survey_features fit]
    by (simp add: survey_region flag_first_twentieth_length flag_first_twentieth_mean big
        survey_result_def np_mean_replicate pos round2_def rint_def)
qed


lemma initial_miss: "mask_cache initial_state k = None"
  by (simp add: initial_state_def)

lemma speckle_features:
  "feature_stage speckle_library ''blank'' ''blank'' =
     Inr (\<lparr>nd_shape = [512, 512], nd_data = replicate tile 0\<rparr>,
          \<lparr>nd_shape = [512, 512], nd_data = replicate tile 0\<rparr>,
          replicate tile (0, 0))"
proof -
  have d: "decode_image speckle_library ''blank'' = Inr \<lparr>nd_shape = [1, 1, 5], nd_data = [0, 0, 0, 0, 0]\<rparr>"
    by (simp add: decode_image_eq decode_image_body_def speckle_library_def blank_library_def
        quiet_library_def blank_scene_def)
  from one_pixel_features [OF d d] show ?thesis
    by (simp add: speckle_library_def blank_library_def quiet_library_def)
qed

text \<open>
  The theorem on the blank pair with two specks of 12 pixels in the mask: both are
  filtered out and the call returns \<^verbatim>\<open>{"detected": False}\<close>.
\<close>

theorem no_surviving_contour_no_detection_witness:
  "findContours speckle_library \<lparr>nd_shape = [512, 512], nd_data = replicate tile 0\<rparr> = [speck, speck] \<and>
   contourArea speck < 50 \<and>
   detect_illegal_construction speckle_library ''20250101_000000'' initial_state
       ''blank'' ''blank'' ''static/masks''
     = (Inr NoDetection, initial_state\<lparr>scorer_fits := 1\<rparr>)"
proof -
  have fit: "IsolationForest speckle_library (5 / 100) 42 (replicate tile (0, 0))
             = (replicate tile 0, replicate tile 1)"
    by (simp add: speckle_library_def blank_library_def quiet_library_def)
  have grid: "np_reshape (replicate tile (1 :: int))
                 (nd_shape \<lparr>nd_shape = [512, 512], nd_data = replicate tile (0 :: real)\<rparr>)
              = Inr \<lparr>nd_shape = [512, 512], nd_data = replicate tile 1\<rparr>"
    by (simp add: np_reshape_def tile_def)
  have cs: "findContours speckle_library (morphologyEx_close speckle_library
               (np_map (\<lambda>p. if p = - 1 then 255 else 0) \<lparr>nd_shape = [512, 512], nd_data = replicate tile (1 :: int)\<rparr>))
            = [speck, speck]"
    by (simp add: speckle_library_def blank_library_def quiet_library_def)
  have small: "(\<forall>c \<in> set [speck, speck]. contourArea c < 50) \<or>
      (\<exists>bb polys. region_loop [speck, speck] ((512, 512, 0, 0), []) = Inr (bb, polys) \<and> degenerate bb)"
    by (simp add: speck_def)
  from no_surviving_contour_no_detection [OF initial_miss speckle_features fit grid cs small]
  show ?thesis
    by (simp add: speckle_library_def blank_library_def quiet_library_def speck_def initial_state_def)
qed

lemma survey_first:
  "fst (detect_illegal_construction survey_library now initial_state ''before'' ''after'' out)
     = Inr (survey_result now out)"
  by (simp add: survey_run [OF initial_miss])

lemma survey_detected: "detected (survey_result now out)"
  by (simp add: detected_def survey_result_def)

lemma survey_pair:
  "detect_illegal_construction survey_library now initial_state ''before'' ''after'' out
     = (Inr (survey_result now out),
        snd (detect_illegal_construction survey_library now initial_state ''before'' ''after'' out))"
  using survey_first [of now out] by (metis prod.collapse)

text \<open>The theorem on the survey: the box is \<open>[100, 120, 120, 140]\<close>.\<close>

theorem detected_bbox_in_tile_witness:
  "fst (detect_illegal_construction survey_library ''20250101_000000'' initial_state
          ''before'' ''after'' ''static/masks'')
     = Inr (survey_result ''20250101_000000'' ''static/masks'') \<and>
   res_bbox (survey_result ''20250101_000000'' ''static/masks'') = [100, 120, 120, 140] \<and>
   (\<exists>x_min y_min x_max y_max.
      res_bbox (survey_result ''20250101_000000'' ''static/masks'') = [x_min, y_min, x_max, y_max] \<and>
      0 \<le> x_min \<and> x_min < x_max \<and> x_max \<le> 512 \<and> 0 \<le> y_min \<and> y_min < y_max \<and> y_max \<le> 512)"
proof -
  have lib: "\<forall>m. \<forall>c \<in> set (findContours survey_library m). in_tile (boundingRect c)"
    by (simp add: survey_library_def quiet_library_def building_def in_tile_def)
  from detected_bbox_in_tile [OF lib reachable.start survey_pair survey_detected]
  have "\<exists>x_min y_min x_max y_max.
      res_bbox (survey_result ''20250101_000000'' ''static/masks'') = [x_min, y_min, x_max, y_max] \<and>
      0 \<le> x_min \<and> x_min < x_max \<and> x_max \<le> 512 \<and> 0 \<le> y_min \<and> y_min < y_max \<and> y_max \<le> 512" .
  moreover have "res_bbox (survey_result ''20250101_000000'' ''static/masks'') = [100, 120, 120, 140]"
    by (simp add: survey_result_def)
  ultimately show ?thesis by (simp add: survey_first)
qed







subsection \<open>Batches\<close>

text \<open>
  C9 on the code. For the batch of one pair \<^verbatim>\<open>batch_detect\<close> returns the list of one
  coroutine object: the pipeline has not run, and the entry is neither a result
  dictionary nor an exception. In general the list has one coroutine object per zipped
  pair.
\<close>

theorem batch_detect_returns_coroutines:
  "batch_detect [DUMMY_BASE64] [DUMMY_BASE64] ''static/masks''
     = [Coroutine DUMMY_BASE64 DUMMY_BASE64 ''static/masks''] \<and>
   batch_detect old_b64s new_b64s output_dir
     = map (\<lambda>(old, new). Coroutine old new output_dir) (zip old_b64s new_b64s) \<and>
   length (batch_detect old_b64s new_b64s output_dir) = min (length old_b64s) (length new_b64s)"
  by (simp add: batch_detect_def gather_return_exceptions_def to_thread_def
      detect_illegal_construction_call_def split_def)

end
